theory Spec2Isabelle
  imports Main
begin

section \<open>JavaScript values, truthiness and exceptions\<close>

text \<open>
  The plugin is TypeScript running on Node. Strings are modelled as HOL strings whose
  characters are the bytes of the UTF-8 encoding; a Node \<open>Buffer\<close> is a byte
  sequence as well. A number is an integer: the timestamps and durations of the plugin
  are whole milliseconds. An optional property (\<open>username?: string\<close>) is an \<open>option\<close>:
  \<open>None\<close> is \<open>undefined\<close>. A thrown exception is the \<open>Inl\<close> side of a sum.
\<close>

type_synonym Buffer = "char list"

datatype js_error = TypeError | DecodeError | CorruptFragmentSequence | Error string

datatype jsval = JUndefined | JBoolean bool | JNumber int | JString string | JBuffer Buffer

text \<open>What \<open>if (v)\<close>, \<open>v && w\<close> and \<open>v || w\<close> test: an object (a Buffer) is always
  truthy, a number unless it is zero, a string unless it is empty.\<close>

fun truthy :: "jsval \<Rightarrow> bool" where
  "truthy JUndefined = False"
| "truthy (JBoolean b) = b"
| "truthy (JNumber n) = (n \<noteq> 0)"
| "truthy (JString s) = (s \<noteq> [])"
| "truthy (JBuffer b) = True"

text \<open>\<open>a && b\<close> and \<open>a || b\<close> yield one of their operands, not a boolean.\<close>

definition js_and :: "jsval \<Rightarrow> jsval \<Rightarrow> jsval" where
  "js_and a b = (if truthy a then b else a)"

definition js_or :: "jsval \<Rightarrow> jsval \<Rightarrow> jsval" where
  "js_or a b = (if truthy a then a else b)"

definition str_val :: "string option \<Rightarrow> jsval" where
  "str_val v = (case v of None \<Rightarrow> JUndefined | Some s \<Rightarrow> JString s)"

definition num_val :: "int option \<Rightarrow> jsval" where
  "num_val v = (case v of None \<Rightarrow> JUndefined | Some n \<Rightarrow> JNumber n)"

definition buf_val :: "Buffer option \<Rightarrow> jsval" where
  "buf_val v = (case v of None \<Rightarrow> JUndefined | Some b \<Rightarrow> JBuffer b)"

text \<open>\<open>a || d\<close> where \<open>a\<close> is an optional string and \<open>d\<close> a string literal.\<close>

definition str_or :: "string option \<Rightarrow> string \<Rightarrow> string" where
  "str_or a d = (case a of None \<Rightarrow> d | Some s \<Rightarrow> if s = [] then d else s)"

text \<open>Sequencing of calls that may throw: the first exception ends the sequence.\<close>

definition then_try :: "js_error + 'a \<Rightarrow> ('a \<Rightarrow> js_error + 'b) \<Rightarrow> js_error + 'b" where
  "then_try r f = (case r of Inl e \<Rightarrow> Inl e | Inr v \<Rightarrow> f v)"

text \<open>An \<open>async\<close> method returns a promise: resolved with the value of its \<open>return\<close>, or
  rejected with the exception that left its body. A caller that awaits the promise and
  tests the value (\<open>if (!(await p))\<close>) takes the positive branch only for a promise
  resolved with a truthy value.\<close>

datatype 'a promise = Resolved 'a | Rejected js_error

definition accepted :: "jsval promise \<Rightarrow> bool" where
  "accepted p = (case p of Resolved v \<Rightarrow> truthy v | Rejected err \<Rightarrow> False)"

section \<open>\<open>querystring.escape\<close>\<close>

text \<open>
  Node's \<open>querystring.escape\<close> keeps the characters \<open>A-Z a-z 0-9 - _ . ! ~ * ' ( )\<close>
  and writes every other byte of the UTF-8 encoding as \<open>%XX\<close> with upper-case
  hexadecimal digits.
\<close>

definition unreserved :: "char \<Rightarrow> bool" where
  "unreserved c =
     (c \<in> set ''ABCDEFGHIJKLMNOPQRSTUVWXYZabcdefghijklmnopqrstuvwxyz0123456789-_.!~*()''
      \<or> c = CHR 0x27)"

definition hex_digit :: "nat \<Rightarrow> char" where
  "hex_digit n = ''0123456789ABCDEF'' ! (n mod 16)"

definition escape_char :: "char \<Rightarrow> string" where
  "escape_char c =
     (if unreserved c then [c]
      else [CHR ''%'', hex_digit (of_char c div 16), hex_digit (of_char c mod 16)])"

definition escape :: "string \<Rightarrow> string" where
  "escape s = concat (map escape_char s)"

section \<open>The session cookie and the request\<close>

text \<open>Modelled from the spec: the declaration of \<open>SecuritySessionCookie\<close>
  (\<open>session/security_cookie\<close>), which is not among the sources. The fields are the ones
  \<open>saml_auth.ts\<close> reads and writes, typed as the data model of the specification types
  them (section 3): a string identity, a string or a byte sequence for the credential, a
  tag, a timestamp in milliseconds. \<open>credentials\<close> is optional and so is each of its two
  fields: the source reads them through \<open>cookie.credentials?.\<close>.\<close>

record Credentials =
  authHeaderValue :: "string option"
  authHeaderValueCompressed :: "Buffer option"

record SecuritySessionCookie =
  username :: "string option"
  credentials :: "Credentials option"
  authType :: "string option"
  expiryTime :: "int option"

record AuthInfo =
  user_name :: "string option"

text \<open>Of a request, the headers, the path of its URL and the cookies it carries.\<close>

record OpenSearchDashboardsRequest =
  headers :: "string \<Rightarrow> string option"
  url_pathname :: "string option"
  state :: "string \<Rightarrow> string option"

record SecurityPluginConfig =
  cookie_name :: string
  session_ttl :: int

text \<open>
  What the class uses and the sources do not contain is a parameter of the model, gathered
  in one record: the constant \<open>AuthType.SAML\<close>, the clock (\<open>Date.now()\<close>), the Compressor
  (\<open>deflateValue\<close>, \<open>inflateValue\<close> of \<open>utils/compression\<close>), the Joiner
  (\<open>unsplitCookiesIntoValue\<close> of \<open>session/cookie_splitter\<close>), \<open>Buffer.from(_, 'base64')\<close>
  and \<open>Buffer.toString\<close>, \<open>clearOldVersionCookieValue\<close> and the inherited
  \<open>isPageRequest\<close>. Every call that can throw returns a sum.
\<close>

record env =
  AuthType_SAML :: string
  Date_now :: int
  deflateValue :: "string option \<Rightarrow> js_error + Buffer"
  inflateValue :: "Buffer \<Rightarrow> js_error + Buffer"
  unsplitCookiesIntoValue :: "OpenSearchDashboardsRequest \<Rightarrow> string \<Rightarrow> js_error + string"
  Buffer_from_base64 :: "string \<Rightarrow> js_error + Buffer"
  Buffer_toString :: "Buffer \<Rightarrow> js_error + string"
  clearOldVersionCookieValue :: "SecurityPluginConfig \<Rightarrow> string"
  isPageRequest :: "OpenSearchDashboardsRequest \<Rightarrow> bool"

text \<open>The fields of \<open>this\<close> that the methods read.\<close>

record SamlAuthentication =
  config :: SecurityPluginConfig
  serverBasePath :: string
  extraCookieName :: string

section \<open>The class \<open>SamlAuthentication\<close>\<close>

definition AUTH_HEADER_NAME :: string where
  "AUTH_HEADER_NAME = ''authorization''"

text \<open>The constructor names the extra cookies after the session cookie and registers
  two of them.\<close>

definition SamlAuthentication_new :: "SecurityPluginConfig \<Rightarrow> string \<Rightarrow> SamlAuthentication" where
  "SamlAuthentication_new cfg basePath =
     \<lparr>config = cfg, serverBasePath = basePath, extraCookieName = cookie_name cfg @ ''_saml''\<rparr>"

definition extraCookieSlots :: "SamlAuthentication \<Rightarrow> string list" where
  "extraCookieSlots this = [extraCookieName this @ ''_1'', extraCookieName this @ ''_2'']"

definition generateNextUrl :: "SamlAuthentication \<Rightarrow> OpenSearchDashboardsRequest \<Rightarrow> string" where
  "generateNextUrl this request =
     (let path = serverBasePath this @ str_or (url_pathname request) ''/app/opensearch-dashboards''
      in escape path)"

text \<open>The two results of \<open>handleUnauthedRequest\<close>: \<open>toolkit.redirected(headers)\<close> and
  \<open>response.unauthorized()\<close>.\<close>

datatype auth_outcome = AuthRedirected "(string \<times> string) list" | ResponseUnauthorized

definition redirectSAMlCapture :: "env \<Rightarrow> SamlAuthentication \<Rightarrow> OpenSearchDashboardsRequest \<Rightarrow> auth_outcome" where
  "redirectSAMlCapture e this request =
     (let nextUrl = generateNextUrl this request;
          clearOldVersionCookie = clearOldVersionCookieValue e (config this)
      in AuthRedirected
           [(''location'',
               serverBasePath this @ ''/auth/saml/captureUrlFragment?nextUrl='' @ nextUrl),
            (''set-cookie'', clearOldVersionCookie)])"

definition requestIncludesAuthInfo :: "OpenSearchDashboardsRequest \<Rightarrow> bool" where
  "requestIncludesAuthInfo request = (if truthy (str_val (headers request AUTH_HEADER_NAME)) then True else False)"

text \<open>\<open>getCookie\<close>: an exception of the Compressor leaves the method; otherwise the
  object literal is returned. The literal has no \<open>authHeaderValue\<close> property.\<close>

definition getCookie ::
  "env \<Rightarrow> SamlAuthentication \<Rightarrow> OpenSearchDashboardsRequest \<Rightarrow> AuthInfo \<Rightarrow> js_error + SecuritySessionCookie" where
  "getCookie e this request authInfo =
     then_try (deflateValue e (headers request AUTH_HEADER_NAME)) (\<lambda>compressed.
       Inr \<lparr>username = user_name authInfo,
            credentials = Some \<lparr>authHeaderValue = None, authHeaderValueCompressed = Some compressed\<rparr>,
            authType = Some (AuthType_SAML e),
            expiryTime = Some (Date_now e + session_ttl (config this))\<rparr>)"

text \<open>\<open>cookie.credentials?.authHeaderValue\<close> and
  \<open>cookie.credentials?.authHeaderValueCompressed\<close>.\<close>

definition inline_credential :: "SecuritySessionCookie \<Rightarrow> string option" where
  "inline_credential cookie = Option.bind (credentials cookie) authHeaderValue"

definition compressed_credential :: "SecuritySessionCookie \<Rightarrow> Buffer option" where
  "compressed_credential cookie = Option.bind (credentials cookie) authHeaderValueCompressed"

text \<open>\<open>isValidCookie\<close> is \<open>async\<close> and returns the value of the \<open>&&\<close> chain, which is one of
  its operands. The body reads properties of the cookie object, and of \<open>credentials\<close>
  through \<open>?.\<close> only: it has no operation that throws.\<close>

definition isValidCookie :: "env \<Rightarrow> SecuritySessionCookie \<Rightarrow> jsval promise" where
  "isValidCookie e cookie =
     Resolved
       (js_and
          (js_and
             (js_and (JBoolean (authType cookie = Some (AuthType_SAML e)))
                     (str_val (username cookie)))
             (num_val (expiryTime cookie)))
          (js_or (str_val (inline_credential cookie)) (buf_val (compressed_credential cookie))))"

definition handleUnauthedRequest :: "env \<Rightarrow> SamlAuthentication \<Rightarrow> OpenSearchDashboardsRequest \<Rightarrow> auth_outcome" where
  "handleUnauthedRequest e this request =
     (if isPageRequest e request then redirectSAMlCapture e this request
      else ResponseUnauthorized)"

text \<open>The body of the \<open>try\<close> block of \<open>buildAuthHeaderFromCookie\<close>: join, decode,
  inflate, convert. Any of the four calls may throw.\<close>

definition reconstruct :: "env \<Rightarrow> SamlAuthentication \<Rightarrow> OpenSearchDashboardsRequest \<Rightarrow> js_error + string" where
  "reconstruct e this request =
     then_try (unsplitCookiesIntoValue e request (extraCookieName this)) (\<lambda>fullCookieValue.
     then_try (Buffer_from_base64 e fullCookieValue) (\<lambda>decoded.
     then_try (inflateValue e decoded) (\<lambda>inflatedFullCookieValue.
       Buffer_toString e inflatedFullCookieValue)))"

text \<open>What a call of \<open>buildAuthHeaderFromCookie\<close> leaves behind: either the object it
  returns or the exception that leaves it, and what it has passed to
  \<open>this.logger.error\<close>. A header whose value is \<open>undefined\<close> has the value \<open>None\<close>.\<close>

record build_result =
  returned :: "js_error + (string \<times> string option) list"
  logged :: "js_error list"

definition buildAuthHeaderFromCookie ::
  "env \<Rightarrow> SamlAuthentication \<Rightarrow> SecuritySessionCookie \<Rightarrow> OpenSearchDashboardsRequest \<Rightarrow> build_result" where
  "buildAuthHeaderFromCookie e this cookie request =
     (if truthy (buf_val (compressed_credential cookie)) then
        (case reconstruct e this request of
           Inr v \<Rightarrow> \<lparr>returned = Inr [(AUTH_HEADER_NAME, Some v)], logged = []\<rparr>
         | Inl error \<Rightarrow> \<lparr>returned = Inr [], logged = [error]\<rparr>)
      else
        \<lparr>returned = Inr [(AUTH_HEADER_NAME, inline_credential cookie)], logged = []\<rparr>)"

text \<open>Which representation a cookie carries, as \<open>buildAuthHeaderFromCookie\<close> decides it:
  the test of its \<open>if\<close>.\<close>

datatype storage = Inline | Overflow

definition classify :: "SecuritySessionCookie \<Rightarrow> storage" where
  "classify cookie = (if truthy (buf_val (compressed_credential cookie)) then Overflow else Inline)"

section \<open>The Joiner of the specification\<close>

text \<open>A slot is absent when the request has no such cookie or the cookie is empty.\<close>

definition absent :: "string option \<Rightarrow> bool" where
  "absent slot = (case slot of None \<Rightarrow> True | Some f \<Rightarrow> f = [])"

definition fragment :: "string option \<Rightarrow> string" where
  "fragment slot = (case slot of None \<Rightarrow> [] | Some f \<Rightarrow> f)"

text \<open>Modelled from the spec: the Joiner, \<open>unsplitCookiesIntoValue\<close> of
  \<open>session/cookie_splitter\<close>, which is not among the sources. The specification (4.2):
  \<open>join\<close> concatenates the present fragments in slot order, skipping absent ones if and
  only if absence occurs only at the tail; a gap in the middle is a corruption signal
  (\<open>CorruptFragmentSequence\<close>, section 7).\<close>

fun join :: "string option list \<Rightarrow> js_error + string" where
  "join [] = Inr []"
| "join (slot # rest) =
     (if absent slot then (if list_all absent rest then Inr [] else Inl CorruptFragmentSequence)
      else then_try (join rest) (\<lambda>v. Inr (fragment slot @ v)))"

text \<open>Modelled from the spec: the slots the Joiner reads, \<open><baseName>_1 .. <baseName>_K\<close>
  with \<open>K = 2\<close> (sections 3 and 6); the constructor registers the same two names.\<close>

definition spec_unsplitCookiesIntoValue :: "OpenSearchDashboardsRequest \<Rightarrow> string \<Rightarrow> js_error + string" where
  "spec_unsplitCookiesIntoValue request baseName =
     join [state request (baseName @ ''_1''), state request (baseName @ ''_2'')]"

section \<open>The validity conditions in the specification's words\<close>

definition username_nonempty :: "SecuritySessionCookie \<Rightarrow> bool" where
  "username_nonempty cookie = (case username cookie of None \<Rightarrow> False | Some u \<Rightarrow> u \<noteq> [])"

definition expiryTime_set :: "SecuritySessionCookie \<Rightarrow> bool" where
  "expiryTime_set cookie = (case expiryTime cookie of None \<Rightarrow> False | Some t \<Rightarrow> True)"

definition expiryTime_nonzero :: "SecuritySessionCookie \<Rightarrow> bool" where
  "expiryTime_nonzero cookie = (case expiryTime cookie of None \<Rightarrow> False | Some t \<Rightarrow> t \<noteq> 0)"

definition inline_populated :: "SecuritySessionCookie \<Rightarrow> bool" where
  "inline_populated cookie = (case inline_credential cookie of None \<Rightarrow> False | Some v \<Rightarrow> v \<noteq> [])"

definition compressed_populated :: "SecuritySessionCookie \<Rightarrow> bool" where
  "compressed_populated cookie = (case compressed_credential cookie of None \<Rightarrow> False | Some b \<Rightarrow> True)"

text \<open>Section 4.4: the tag matches, the user name is non-empty, the expiry time is set and
  at least one of the two credential fields is populated.\<close>

definition spec_isValid :: "env \<Rightarrow> SecuritySessionCookie \<Rightarrow> bool" where
  "spec_isValid e cookie =
     (authType cookie = Some (AuthType_SAML e) \<and> username_nonempty cookie \<and>
      expiryTime_set cookie \<and> (inline_populated cookie \<or> compressed_populated cookie))"

section \<open>An example installation\<close>

text \<open>
  To evaluate the methods at concrete requests the parameters need values. The Joiner is
  the specification's; the others are small stand-ins: a Compressor that prefixes a
  marker byte and refuses input without it, a transparent text encoding, a page test on
  the path, and a fixed cookie-clearing header.
\<close>

definition example_deflateValue :: "string option \<Rightarrow> js_error + Buffer" where
  "example_deflateValue v = (case v of None \<Rightarrow> Inl TypeError | Some s \<Rightarrow> Inr (CHR ''x'' # s))"

definition example_inflateValue :: "Buffer \<Rightarrow> js_error + Buffer" where
  "example_inflateValue b =
     (case b of [] \<Rightarrow> Inl DecodeError
      | c # r \<Rightarrow> if c = CHR ''x'' then Inr r else Inl DecodeError)"

definition example_isPageRequest :: "OpenSearchDashboardsRequest \<Rightarrow> bool" where
  "example_isPageRequest request =
     (let path = str_or (url_pathname request) ''/'' in take 5 path = ''/app/'' \<or> path = ''/'')"

definition example_env :: env where
  "example_env =
     \<lparr>AuthType_SAML = ''saml'',
      Date_now = 1700000000000,
      deflateValue = example_deflateValue,
      inflateValue = example_inflateValue,
      unsplitCookiesIntoValue = spec_unsplitCookiesIntoValue,
      Buffer_from_base64 = Inr,
      Buffer_toString = Inr,
      clearOldVersionCookieValue = (\<lambda>cfg. ''security_authentication=; Max-Age=0; HttpOnly; Path=/''),
      isPageRequest = example_isPageRequest\<rparr>"

definition example_this :: SamlAuthentication where
  "example_this =
     SamlAuthentication_new \<lparr>cookie_name = ''security_authentication'', session_ttl = 3600000\<rparr> ''/osd''"

text \<open>A request without cookies or headers for a path.\<close>

definition request_for :: "string option \<Rightarrow> OpenSearchDashboardsRequest" where
  "request_for p = \<lparr>headers = (\<lambda>h. None), url_pathname = p, state = (\<lambda>c. None)\<rparr>"

text \<open>A credential of fifty bytes, and the login request that carries it.\<close>

definition credential50 :: string where
  "credential50 = ''Bearer 0123456789abcdefghijklmnopqrstuvwxyzABCDEFG''"

definition login_request :: "string \<Rightarrow> OpenSearchDashboardsRequest" where
  "login_request h =
     \<lparr>headers = (\<lambda>n. if n = AUTH_HEADER_NAME then Some h else None),
      url_pathname = Some ''/_opendistro/_security/saml/acs'',
      state = (\<lambda>c. None)\<rparr>"

text \<open>Session cookies with the credential in the compressed field and in the inline field,
  for a given expiry time, and a request that carries the two extra cookies.\<close>

definition overflow_cookie :: "int \<Rightarrow> SecuritySessionCookie" where
  "overflow_cookie t =
     \<lparr>username = Some ''alice'',
      credentials = Some \<lparr>authHeaderValue = None, authHeaderValueCompressed = Some ''xBearer abc''\<rparr>,
      authType = Some ''saml'',
      expiryTime = Some t\<rparr>"

definition inline_cookie :: "int \<Rightarrow> SecuritySessionCookie" where
  "inline_cookie t =
     \<lparr>username = Some ''alice'',
      credentials = Some \<lparr>authHeaderValue = Some ''Bearer abc'', authHeaderValueCompressed = None\<rparr>,
      authType = Some ''saml'',
      expiryTime = Some t\<rparr>"

definition slots_request :: "string option \<Rightarrow> string option \<Rightarrow> OpenSearchDashboardsRequest" where
  "slots_request s1 s2 =
     \<lparr>headers = (\<lambda>h. None),
      url_pathname = Some ''/api/saved_objects/_find'',
      state = (\<lambda>c. if c = ''security_authentication_saml_1'' then s1
                    else if c = ''security_authentication_saml_2'' then s2 else None)\<rparr>"

section \<open>Basic facts\<close>

lemmas example_defs =
  example_env_def example_this_def SamlAuthentication_new_def example_deflateValue_def
  example_inflateValue_def example_isPageRequest_def spec_unsplitCookiesIntoValue_def
  request_for_def login_request_def slots_request_def overflow_cookie_def inline_cookie_def
  AUTH_HEADER_NAME_def

lemmas cookie_defs =
  username_nonempty_def expiryTime_set_def expiryTime_nonzero_def inline_populated_def
  compressed_populated_def inline_credential_def compressed_credential_def spec_isValid_def

lemma truthy_str_val: "truthy (str_val v) = (case v of None \<Rightarrow> False | Some s \<Rightarrow> s \<noteq> [])"
  by (simp add: str_val_def split: option.splits)

lemma truthy_num_val: "truthy (num_val v) = (case v of None \<Rightarrow> False | Some n \<Rightarrow> n \<noteq> 0)"
  by (simp add: num_val_def split: option.splits)

lemma truthy_buf_val: "truthy (buf_val v) = (v \<noteq> None)"
  by (simp add: buf_val_def split: option.splits)

lemma truthy_js_and: "truthy (js_and a b) = (truthy a \<and> truthy b)"
  by (simp add: js_and_def)

lemma truthy_js_or: "truthy (js_or a b) = (truthy a \<or> truthy b)"
  by (simp add: js_or_def)

lemma compressed_populated_truthy:
  "truthy (buf_val (compressed_credential cookie)) = compressed_populated cookie"
  by (simp add: truthy_buf_val compressed_populated_def split: option.splits)

text \<open>The value \<open>isValidCookie\<close> resolves with is truthy exactly when the tag matches, the
  user name is a non-empty string, the expiry time is a non-zero number and one of the two
  credential fields is truthy.\<close>

lemma accepts_iff:
  "accepted (isValidCookie e cookie) =
     (authType cookie = Some (AuthType_SAML e) \<and> username_nonempty cookie \<and>
      expiryTime_nonzero cookie \<and> (inline_populated cookie \<or> compressed_populated cookie))"
  by (simp add: isValidCookie_def accepted_def truthy_js_and truthy_js_or truthy_str_val
      truthy_num_val truthy_buf_val cookie_defs split: option.splits)

lemma isValidCookie_resolves: "\<exists>v. isValidCookie e cookie = Resolved v"
  by (simp add: isValidCookie_def)

lemma escape_example:
  "escape ''/osd/app/dash boards?x=1&y=2'' = ''%2Fosd%2Fapp%2Fdash%20boards%3Fx%3D1%26y%3D2''"
  by (simp add: escape_def escape_char_def unreserved_def hex_digit_def)

section \<open>Reconstruction of the authorization header\<close>

text \<open>Reconstruction fails when the Joiner throws, or the base64 decoding does, or the
  Compressor does, or the conversion to a string does; the exception of the first call
  that throws is the one the \<open>catch\<close> clause sees.\<close>

lemma reconstruct_failure_cases:
  "(reconstruct e this request = Inl err) =
     (unsplitCookiesIntoValue e request (extraCookieName this) = Inl err \<or>
      (\<exists>full. unsplitCookiesIntoValue e request (extraCookieName this) = Inr full \<and>
         (Buffer_from_base64 e full = Inl err \<or>
          (\<exists>decoded. Buffer_from_base64 e full = Inr decoded \<and>
             (inflateValue e decoded = Inl err \<or>
              (\<exists>inflated. inflateValue e decoded = Inr inflated \<and>
                 Buffer_toString e inflated = Inl err))))))"
  by (auto simp: reconstruct_def then_try_def split: sum.splits)

text \<open>No call of \<open>buildAuthHeaderFromCookie\<close> ends in an exception.\<close>

lemma buildAuthHeaderFromCookie_never_throws:
  "\<exists>hs. returned (buildAuthHeaderFromCookie e this cookie request) = Inr hs"
  by (simp add: buildAuthHeaderFromCookie_def split: sum.splits)

text \<open>
  Claim C1. For a session cookie whose \<open>credentials.authHeaderValueCompressed\<close> is set and
  any request: when the reconstruction of the credential (joining the extra cookies of the
  request, base64-decoding, inflating, converting to a string) fails with an exception
  \<open>err\<close>, whichever step throws it, \<open>buildAuthHeaderFromCookie\<close> passes \<open>err\<close> to the logger
  and returns the empty header object; the exception does not reach the caller.
\<close>

theorem buildAuthHeaderFromCookie_failure_contained:
  assumes "compressed_populated cookie"
    and "reconstruct e this request = Inl err"
  shows "buildAuthHeaderFromCookie e this cookie request = \<lparr>returned = Inr [], logged = [err]\<rparr>"
  using assms by (simp add: buildAuthHeaderFromCookie_def compressed_populated_truthy)

text \<open>The first extra cookie is missing and the second is present: the Joiner of the
  specification signals the gap, the error is logged and no header is set.\<close>

theorem buildAuthHeaderFromCookie_failure_contained_witness:
  "compressed_populated (overflow_cookie 1700003600000) \<and>
   reconstruct example_env example_this (slots_request None (Some ''eEJlYXJlciBhYmM=''))
     = Inl CorruptFragmentSequence \<and>
   buildAuthHeaderFromCookie example_env example_this (overflow_cookie 1700003600000)
       (slots_request None (Some ''eEJlYXJlciBhYmM=''))
     = \<lparr>returned = Inr [], logged = [CorruptFragmentSequence]\<rparr>"
proof -
  have h1: "compressed_populated (overflow_cookie 1700003600000)"
    by (simp add: cookie_defs overflow_cookie_def)
  have h2: "reconstruct example_env example_this (slots_request None (Some ''eEJlYXJlciBhYmM=''))
      = Inl CorruptFragmentSequence"
    by (simp add: reconstruct_def then_try_def example_defs absent_def)
  from buildAuthHeaderFromCookie_failure_contained [OF h1 h2] h1 h2 show ?thesis by blast
qed

text \<open>The same with a Compressor that refuses its input, and a request whose extra cookies
  reconstruct.\<close>

lemma buildAuthHeaderFromCookie_inflate_failure_example:
  "buildAuthHeaderFromCookie example_env example_this (overflow_cookie 1700003600000)
       (slots_request (Some ''garbage'') None)
     = \<lparr>returned = Inr [], logged = [DecodeError]\<rparr>"
  by (simp add: buildAuthHeaderFromCookie_def reconstruct_def then_try_def example_defs absent_def
      fragment_def compressed_credential_def buf_val_def)

lemma buildAuthHeaderFromCookie_success_example:
  "buildAuthHeaderFromCookie example_env example_this (overflow_cookie 1700003600000)
       (slots_request (Some ''xBearer'') (Some '' abc''))
     = \<lparr>returned = Inr [(''authorization'', Some ''Bearer abc'')], logged = []\<rparr>"
  by (simp add: buildAuthHeaderFromCookie_def reconstruct_def then_try_def example_defs absent_def
      fragment_def compressed_credential_def buf_val_def)

text \<open>
  Claim C7. For a session cookie whose compressed credential field is not set,
  \<open>buildAuthHeaderFromCookie\<close> returns a header object whose single entry gives the
  authorization header the cookie's inline \<open>credentials.authHeaderValue\<close>, logs nothing, and
  returns the same whatever the Joiner and the Compressor are: neither is invoked.
\<close>

theorem buildAuthHeaderFromCookie_inline:
  assumes "\<not> compressed_populated cookie"
  shows "buildAuthHeaderFromCookie e this cookie request
           = \<lparr>returned = Inr [(AUTH_HEADER_NAME, inline_credential cookie)], logged = []\<rparr>
         \<and> buildAuthHeaderFromCookie e' this cookie request
           = buildAuthHeaderFromCookie e this cookie request"
  using assms by (simp add: buildAuthHeaderFromCookie_def compressed_populated_truthy)

text \<open>An inline cookie on a request whose extra cookies the Joiner would refuse.\<close>

theorem buildAuthHeaderFromCookie_inline_witness:
  "\<not> compressed_populated (inline_cookie 1700003600000) \<and>
   buildAuthHeaderFromCookie example_env example_this (inline_cookie 1700003600000)
       (slots_request None (Some ''garbage''))
     = \<lparr>returned = Inr [(''authorization'', Some ''Bearer abc'')], logged = []\<rparr>"
proof -
  have h: "\<not> compressed_populated (inline_cookie 1700003600000)"
    by (simp add: cookie_defs inline_cookie_def)
  from buildAuthHeaderFromCookie_inline
         [OF h, of example_env example_this "slots_request None (Some ''garbage'')"] h
  show ?thesis by (simp add: AUTH_HEADER_NAME_def inline_credential_def inline_cookie_def)
qed

section \<open>Unauthenticated requests\<close>

text \<open>
  Claim C5. \<open>handleUnauthedRequest\<close> has two outcomes. For a request that \<open>isPageRequest\<close>
  classifies as a page request it is the redirect to the capture endpoint
  \<open>/auth/saml/captureUrlFragment\<close> under the server base path, carrying the \<open>set-cookie\<close>
  header that \<open>clearOldVersionCookieValue\<close> builds to clear the old-version cookie; for
  every other request it is \<open>response.unauthorized()\<close>, which is no redirect.
\<close>

theorem handleUnauthedRequest_two_outcomes:
  "(isPageRequest e request \<longrightarrow>
      handleUnauthedRequest e this request =
        AuthRedirected
          [(''location'',
              serverBasePath this @ ''/auth/saml/captureUrlFragment?nextUrl='' @
              generateNextUrl this request),
           (''set-cookie'', clearOldVersionCookieValue e (config this))]) \<and>
   (\<not> isPageRequest e request \<longrightarrow> handleUnauthedRequest e this request = ResponseUnauthorized)"
  by (simp add: handleUnauthedRequest_def redirectSAMlCapture_def)

text \<open>A page request and an API request in the example installation.\<close>

theorem handleUnauthedRequest_two_outcomes_witness:
  "isPageRequest example_env (request_for (Some ''/app/home'')) \<and>
   handleUnauthedRequest example_env example_this (request_for (Some ''/app/home'')) =
     AuthRedirected
       [(''location'', ''/osd/auth/saml/captureUrlFragment?nextUrl=%2Fosd%2Fapp%2Fhome''),
        (''set-cookie'', ''security_authentication=; Max-Age=0; HttpOnly; Path=/'')] \<and>
   \<not> isPageRequest example_env (request_for (Some ''/api/v1/auth/authinfo'')) \<and>
   handleUnauthedRequest example_env example_this (request_for (Some ''/api/v1/auth/authinfo'')) =
     ResponseUnauthorized"
proof -
  have page: "isPageRequest example_env (request_for (Some ''/app/home''))"
    by (simp add: example_defs str_or_def)
  have api: "\<not> isPageRequest example_env (request_for (Some ''/api/v1/auth/authinfo''))"
    by (simp add: example_defs str_or_def)
  have url: "generateNextUrl example_this (request_for (Some ''/app/home'')) = ''%2Fosd%2Fapp%2Fhome''"
    by (simp add: generateNextUrl_def example_defs str_or_def escape_def escape_char_def
        unreserved_def hex_digit_def)
  from handleUnauthedRequest_two_outcomes
         [where e = example_env and request = "request_for (Some ''/app/home'')"
            and this = example_this]
       handleUnauthedRequest_two_outcomes
         [where e = example_env and request = "request_for (Some ''/api/v1/auth/authinfo'')"
            and this = example_this]
       page api url
  show ?thesis by (simp add: example_env_def example_this_def SamlAuthentication_new_def)
qed

text \<open>
  Claim C6. The \<open>nextUrl\<close> parameter is the escaped concatenation of the server base path
  and the path of the request, with the landing path \<open>/app/opensearch-dashboards\<close> in place
  of a path that is absent (\<open>undefined\<close> or empty: both are falsy for \<open>||\<close>); for a page
  request it is what follows \<open>nextUrl=\<close> in the \<open>location\<close> of the redirect.
\<close>

theorem redirect_nextUrl:
  "generateNextUrl this request =
     escape (serverBasePath this @
       (case url_pathname request of
          None \<Rightarrow> ''/app/opensearch-dashboards''
        | Some p \<Rightarrow> if p = [] then ''/app/opensearch-dashboards'' else p)) \<and>
   (isPageRequest e request \<longrightarrow>
      (\<exists>hs. handleUnauthedRequest e this request = AuthRedirected hs \<and>
         map_of hs ''location'' =
           Some (serverBasePath this @ ''/auth/saml/captureUrlFragment?nextUrl='' @
                 generateNextUrl this request)))"
  by (simp add: handleUnauthedRequest_def redirectSAMlCapture_def generateNextUrl_def str_or_def
      split: option.splits)

text \<open>A page request without a path is sent to the escaped landing path.\<close>

theorem redirect_nextUrl_witness:
  "isPageRequest example_env (request_for None) \<and>
   generateNextUrl example_this (request_for None) = ''%2Fosd%2Fapp%2Fopensearch-dashboards'' \<and>
   (\<exists>hs. handleUnauthedRequest example_env example_this (request_for None) = AuthRedirected hs \<and>
      map_of hs ''location'' =
        Some ''/osd/auth/saml/captureUrlFragment?nextUrl=%2Fosd%2Fapp%2Fopensearch-dashboards'')"
proof -
  have page: "isPageRequest example_env (request_for None)"
    by (simp add: example_defs str_or_def)
  have esc: "escape ''/osd/app/opensearch-dashboards'' = ''%2Fosd%2Fapp%2Fopensearch-dashboards''"
    by (simp add: escape_def escape_char_def unreserved_def hex_digit_def)
  have url: "generateNextUrl example_this (request_for None) = ''%2Fosd%2Fapp%2Fopensearch-dashboards''"
    using redirect_nextUrl [where this = example_this and request = "request_for None"
        and e = example_env] esc
    by (simp add: example_defs)
  have base: "serverBasePath example_this = ''/osd''"
    by (simp add: example_defs)
  from redirect_nextUrl [where this = example_this and request = "request_for None"
      and e = example_env] page
  obtain hs where hs:
      "handleUnauthedRequest example_env example_this (request_for None) = AuthRedirected hs"
      "map_of hs ''location'' =
         Some (serverBasePath example_this @ ''/auth/saml/captureUrlFragment?nextUrl='' @
               generateNextUrl example_this (request_for None))"
    by blast
  from hs(2) have "map_of hs ''location'' =
      Some ''/osd/auth/saml/captureUrlFragment?nextUrl=%2Fosd%2Fapp%2Fopensearch-dashboards''"
    by (simp only: base url) simp
  with hs(1) page url show ?thesis by blast
qed

text \<open>A path with characters that are escaped.\<close>

lemma generateNextUrl_example:
  "generateNextUrl example_this (request_for (Some ''/app/data explorer/discover''))
     = ''%2Fosd%2Fapp%2Fdata%20explorer%2Fdiscover''"
  by (simp add: generateNextUrl_def example_defs str_or_def escape_def escape_char_def
      unreserved_def hex_digit_def)

section \<open>Validity of a session cookie\<close>

text \<open>
  Claim C2, as the code has it. For every session cookie the promise \<open>isValidCookie\<close>
  returns is resolved, never rejected, and the value it resolves with is truthy if and only
  if the cookie's \<open>authType\<close> equals the SAML tag, its \<open>username\<close> is non-empty, its
  \<open>expiryTime\<close> is set to a number other than zero, and at least one of the two credential
  fields (inline \<open>authHeaderValue\<close>, compressed \<open>authHeaderValueCompressed\<close>) is populated.
\<close>

theorem isValidCookie_accepts_iff:
  "(\<exists>v. isValidCookie e cookie = Resolved v) \<and>
   accepted (isValidCookie e cookie) =
     (authType cookie = Some (AuthType_SAML e) \<and> username_nonempty cookie \<and>
      expiryTime_nonzero cookie \<and> (inline_populated cookie \<or> compressed_populated cookie))"
  using isValidCookie_resolves [of e cookie] accepts_iff [of e cookie] by blast

text \<open>The claim as the specification words it asks only that \<open>expiryTime\<close> is set. A cookie
  whose expiry time is \<open>0\<close> meets every condition of the specification and is not
  accepted: \<open>cookie.expiryTime && ...\<close> stops at the falsy \<open>0\<close>.\<close>

theorem isValidCookie_zero_expiry_counterexample:
  "spec_isValid example_env (inline_cookie 0) \<and>
   \<not> accepted (isValidCookie example_env (inline_cookie 0))"
  by (simp add: accepts_iff cookie_defs inline_cookie_def example_env_def)

text \<open>The two cases the specification singles out: with an empty user name the value is
  falsy (the empty string, or \<open>false\<close> when the tag does not match either); with only the
  inline credential populated the value is that credential, which is truthy.\<close>

lemma isValidCookie_empty_username:
  "username cookie = Some [] \<Longrightarrow>
   isValidCookie e cookie =
     Resolved (if authType cookie = Some (AuthType_SAML e) then JString [] else JBoolean False)"
  by (simp add: isValidCookie_def js_and_def str_val_def)

lemma isValidCookie_inline_only_example:
  "isValidCookie example_env (inline_cookie 1700003600000) = Resolved (JString ''Bearer abc'')"
  by (simp add: isValidCookie_def js_and_def js_or_def str_val_def num_val_def buf_val_def
      inline_cookie_def example_env_def inline_credential_def compressed_credential_def)

text \<open>
  Claim C4, as the code has it. The value \<open>isValidCookie\<close> returns does not depend on the
  clock: it is the same for every reading of \<open>Date.now()\<close>. A cookie with the SAML tag, a
  non-empty user name, a populated credential field and an expiry time \<open>t\<close> other than zero
  is accepted also when \<open>t\<close> is earlier than the current time.
\<close>

theorem isValidCookie_ignores_clock:
  "isValidCookie (e\<lparr>Date_now := t'\<rparr>) cookie = isValidCookie e cookie \<and>
   (authType cookie = Some (AuthType_SAML e) \<and> username_nonempty cookie \<and>
    (inline_populated cookie \<or> compressed_populated cookie) \<and>
    expiryTime cookie = Some t \<and> t \<noteq> 0 \<and> t < Date_now e
      \<longrightarrow> accepted (isValidCookie e cookie))"
  by (simp add: accepts_iff expiryTime_nonzero_def) (simp add: isValidCookie_def)

text \<open>A cookie that expired long before the clock reading of the example installation.\<close>

theorem isValidCookie_ignores_clock_witness:
  "authType (overflow_cookie 1600000000000) = Some (AuthType_SAML example_env) \<and>
   username_nonempty (overflow_cookie 1600000000000) \<and>
   compressed_populated (overflow_cookie 1600000000000) \<and>
   expiryTime (overflow_cookie 1600000000000) = Some 1600000000000 \<and>
   (1600000000000::int) \<noteq> 0 \<and> 1600000000000 < Date_now example_env \<and>
   accepted (isValidCookie example_env (overflow_cookie 1600000000000)) \<and>
   isValidCookie (example_env\<lparr>Date_now := 1500000000000\<rparr>) (overflow_cookie 1600000000000)
     = isValidCookie example_env (overflow_cookie 1600000000000)"
proof -
  have h: "authType (overflow_cookie 1600000000000) = Some (AuthType_SAML example_env) \<and>
      username_nonempty (overflow_cookie 1600000000000) \<and>
      compressed_populated (overflow_cookie 1600000000000) \<and>
      expiryTime (overflow_cookie 1600000000000) = Some 1600000000000 \<and>
      (1600000000000::int) \<noteq> 0 \<and> 1600000000000 < Date_now example_env"
    by (simp add: cookie_defs overflow_cookie_def example_env_def)
  from isValidCookie_ignores_clock
         [where e = example_env and t' = 1500000000000
            and cookie = "overflow_cookie 1600000000000" and t = 1600000000000] h
  show ?thesis by blast
qed

text \<open>With the expiry time merely set, the second half fails: the expiry time \<open>0\<close> is set
  and earlier than the clock reading, every other condition holds, and the cookie is not
  accepted.\<close>

theorem isValidCookie_expired_zero_counterexample:
  "spec_isValid example_env (overflow_cookie 0) \<and>
   expiryTime (overflow_cookie 0) = Some 0 \<and> 0 < Date_now example_env \<and>
   \<not> accepted (isValidCookie example_env (overflow_cookie 0))"
  by (simp add: accepts_iff cookie_defs overflow_cookie_def example_env_def)

section \<open>Creation of the session cookie\<close>

text \<open>
  Claim C3, as the code has it. \<open>getCookie\<close> never stores a credential inline. Whatever
  the size of the credential, it hands the authorization header to the Compressor and
  stores the result in \<open>credentials.authHeaderValueCompressed\<close>; the inline field is left
  unset, so that the cookie is of the overflow kind for \<open>buildAuthHeaderFromCookie\<close>. When
  the Compressor throws, so does \<open>getCookie\<close>.
\<close>

theorem getCookie_always_compresses:
  "(deflateValue e (headers request AUTH_HEADER_NAME) = Inr z \<longrightarrow>
      (\<exists>c. getCookie e this request authInfo = Inr c \<and> classify c = Overflow \<and>
           inline_credential c = None \<and> compressed_credential c = Some z)) \<and>
   (deflateValue e (headers request AUTH_HEADER_NAME) = Inl err \<longrightarrow>
      getCookie e this request authInfo = Inl err)"
  by (simp add: getCookie_def then_try_def classify_def inline_credential_def
      compressed_credential_def buf_val_def)

text \<open>A login with the credential of fifty bytes, and a request without the header, which
  the Compressor of the example installation refuses.\<close>

theorem getCookie_always_compresses_witness:
  "deflateValue example_env (headers (login_request credential50) AUTH_HEADER_NAME)
     = Inr (CHR ''x'' # credential50) \<and>
   (\<exists>c. getCookie example_env example_this (login_request credential50)
           \<lparr>user_name = Some ''alice''\<rparr> = Inr c \<and>
        classify c = Overflow \<and> inline_credential c = None \<and>
        compressed_credential c = Some (CHR ''x'' # credential50)) \<and>
   deflateValue example_env (headers (request_for None) AUTH_HEADER_NAME) = Inl TypeError \<and>
   getCookie example_env example_this (request_for None) \<lparr>user_name = Some ''alice''\<rparr>
     = Inl TypeError"
proof -
  have h1: "deflateValue example_env (headers (login_request credential50) AUTH_HEADER_NAME)
     = Inr (CHR ''x'' # credential50)"
    by (simp add: example_defs)
  have h2: "deflateValue example_env (headers (request_for None) AUTH_HEADER_NAME) = Inl TypeError"
    by (simp add: example_defs)
  from getCookie_always_compresses
         [where e = example_env and request = "login_request credential50"
            and z = "CHR ''x'' # credential50" and this = example_this
            and authInfo = "\<lparr>user_name = Some ''alice''\<rparr>"]
       getCookie_always_compresses
         [where e = example_env and request = "request_for None" and err = TypeError
            and this = example_this and authInfo = "\<lparr>user_name = Some ''alice''\<rparr>"]
       h1 h2
  show ?thesis by blast
qed

text \<open>The claim as the specification words it has a credential of fifty bytes stored
  inline, without the Compressor. The cookie \<open>getCookie\<close> creates for such a credential is
  of the overflow kind, its inline field is unset, and its compressed field is what the
  Compressor returned.\<close>

theorem getCookie_small_credential_counterexample:
  "length credential50 = 50 \<and>
   map_sum id classify
     (getCookie example_env example_this (login_request credential50)
        \<lparr>user_name = Some ''alice''\<rparr>)
     = Inr Overflow \<and>
   map_sum id inline_credential
     (getCookie example_env example_this (login_request credential50)
        \<lparr>user_name = Some ''alice''\<rparr>)
     = Inr None \<and>
   map_sum id compressed_credential
     (getCookie example_env example_this (login_request credential50)
        \<lparr>user_name = Some ''alice''\<rparr>)
     = map_sum id Some (deflateValue example_env (Some credential50))"
  by (simp add: getCookie_def then_try_def classify_def inline_credential_def
      compressed_credential_def buf_val_def example_defs credential50_def)

text \<open>The cookie \<open>getCookie\<close> creates, and when \<open>isValidCookie\<close> accepts it: the user name
  must be non-empty and the expiry time, the clock reading plus the session TTL, a number
  that \<open>&&\<close> takes for true.\<close>

lemma getCookie_created:
  assumes "headers request AUTH_HEADER_NAME = Some h"
    and "deflateValue e (Some h) = Inr z"
  shows "\<exists>c. getCookie e this request authInfo = Inr c \<and>
           authType c = Some (AuthType_SAML e) \<and>
           compressed_credential c = Some z \<and> inline_credential c = None \<and>
           expiryTime c = Some (Date_now e + session_ttl (config this)) \<and>
           accepted (isValidCookie e c) =
             ((case user_name authInfo of None \<Rightarrow> False | Some u \<Rightarrow> u \<noteq> []) \<and>
              Date_now e + session_ttl (config this) \<noteq> 0)"
  using assms
  by (simp add: getCookie_def then_try_def accepts_iff cookie_defs)

text \<open>
  Claim C10. For a request that carries an authorization header which the Compressor
  accepts, \<open>getCookie\<close> returns a cookie whose \<open>authType\<close> is the SAML tag, whose compressed
  credential field holds the Compressor's result while the inline field is unset, and
  whose \<open>expiryTime\<close> is the creation time plus the configured session TTL. The clock reads
  a time after the epoch and a configured TTL is a duration, not negative; consequently
  \<open>isValidCookie\<close> accepts the fresh cookie whenever \<open>authInfo.user_name\<close> is non-empty
  (and only then).
\<close>

theorem getCookie_fresh_cookie:
  assumes "headers request AUTH_HEADER_NAME = Some h"
    and "deflateValue e (Some h) = Inr z"
    and "0 < Date_now e"
    and "0 \<le> session_ttl (config this)"
  shows "\<exists>c. getCookie e this request authInfo = Inr c \<and>
           authType c = Some (AuthType_SAML e) \<and>
           compressed_credential c = Some z \<and> inline_credential c = None \<and>
           expiryTime c = Some (Date_now e + session_ttl (config this)) \<and>
           accepted (isValidCookie e c) =
             (case user_name authInfo of None \<Rightarrow> False | Some u \<Rightarrow> u \<noteq> [])"
proof -
  from assms(3,4) have nonzero: "Date_now e + session_ttl (config this) \<noteq> 0"
    by arith
  from getCookie_created [OF assms(1,2), of this authInfo]
  obtain c where c: "getCookie e this request authInfo = Inr c"
      "authType c = Some (AuthType_SAML e)"
      "compressed_credential c = Some z" "inline_credential c = None"
      "expiryTime c = Some (Date_now e + session_ttl (config this))"
      "accepted (isValidCookie e c) =
         ((case user_name authInfo of None \<Rightarrow> False | Some u \<Rightarrow> u \<noteq> []) \<and>
          Date_now e + session_ttl (config this) \<noteq> 0)"
    by blast
  from c(6) nonzero have "accepted (isValidCookie e c) =
      (case user_name authInfo of None \<Rightarrow> False | Some u \<Rightarrow> u \<noteq> [])"
    by simp
  with c(1-5) show ?thesis by blast
qed

text \<open>The login of the example installation: the session lasts an hour and the fresh
  cookie of user \<open>alice\<close> is accepted.\<close>

theorem getCookie_fresh_cookie_witness:
  "headers (login_request credential50) AUTH_HEADER_NAME = Some credential50 \<and>
   deflateValue example_env (Some credential50) = Inr (CHR ''x'' # credential50) \<and>
   0 < Date_now example_env \<and> 0 \<le> session_ttl (config example_this) \<and>
   (\<exists>c. getCookie example_env example_this (login_request credential50)
           \<lparr>user_name = Some ''alice''\<rparr> = Inr c \<and>
        authType c = Some ''saml'' \<and>
        compressed_credential c = Some (CHR ''x'' # credential50) \<and> inline_credential c = None \<and>
        expiryTime c = Some 1700003600000 \<and>
        accepted (isValidCookie example_env c))"
proof -
  have h1: "headers (login_request credential50) AUTH_HEADER_NAME = Some credential50"
    by (simp add: example_defs)
  have h2: "deflateValue example_env (Some credential50) = Inr (CHR ''x'' # credential50)"
    by (simp add: example_defs)
  have h3: "0 < Date_now example_env"
    by (simp add: example_defs)
  have h4: "0 \<le> session_ttl (config example_this)"
    by (simp add: example_defs)
  have v: "AuthType_SAML example_env = ''saml''"
      "Date_now example_env + session_ttl (config example_this) = 1700003600000"
      "user_name \<lparr>user_name = Some ''alice''\<rparr> = Some ''alice''"
    by (simp_all add: example_defs)
  from getCookie_fresh_cookie
         [OF h1 h2 h3 h4, where authInfo = "\<lparr>user_name = Some ''alice''\<rparr>"]
  obtain c where c:
      "getCookie example_env example_this (login_request credential50)
         \<lparr>user_name = Some ''alice''\<rparr> = Inr c"
      "authType c = Some (AuthType_SAML example_env)"
      "compressed_credential c = Some (CHR ''x'' # credential50)" "inline_credential c = None"
      "expiryTime c = Some (Date_now example_env + session_ttl (config example_this))"
      "accepted (isValidCookie example_env c) =
         (case user_name \<lparr>user_name = Some ''alice''\<rparr> of None \<Rightarrow> False | Some u \<Rightarrow> u \<noteq> [])"
    by blast
  from c(6) have "accepted (isValidCookie example_env c)" by (simp add: v)
  with c h1 h2 h3 h4 show ?thesis by (simp add: v)
qed

section \<open>The Joiner\<close>

lemma concat_absent: "list_all absent xs \<Longrightarrow> concat (map fragment xs) = []"
  by (induction xs) (auto simp: absent_def fragment_def split: option.splits)

text \<open>A gap is an absent slot before a present one. Past a present slot, the gaps of a
  sequence are the gaps of its rest.\<close>

lemma gap_Cons_present:
  assumes "\<not> absent slot"
  shows "(\<exists>i j. i < j \<and> j < length (slot # rest) \<and> absent ((slot # rest) ! i) \<and>
                \<not> absent ((slot # rest) ! j))
       = (\<exists>i j. i < j \<and> j < length rest \<and> absent (rest ! i) \<and> \<not> absent (rest ! j))"
    (is "?L = ?R")
proof
  assume ?L
  then obtain i j where ij: "i < j" "j < length (slot # rest)"
      "absent ((slot # rest) ! i)" "\<not> absent ((slot # rest) ! j)"
    by blast
  from ij assms obtain i' where i': "i = Suc i'" by (cases i) auto
  from ij i' obtain j' where j': "j = Suc j'" by (cases j) auto
  from ij i' j' have "i' < j' \<and> j' < length rest \<and> absent (rest ! i') \<and> \<not> absent (rest ! j')"
    by simp
  then show ?R by blast
next
  assume ?R
  then obtain i j where "i < j" "j < length rest" "absent (rest ! i)" "\<not> absent (rest ! j)"
    by blast
  then have "Suc i < Suc j \<and> Suc j < length (slot # rest) \<and>
      absent ((slot # rest) ! Suc i) \<and> \<not> absent ((slot # rest) ! Suc j)"
    by simp
  then show ?L by blast
qed

text \<open>
  Claim C9. \<open>join\<close> concatenates the fragments in slot order and tolerates absent slots if
  and only if the absence is only at the tail: when no absent slot comes before a present
  one the result is the concatenation of the fragments (the absent ones contribute
  nothing); when some slot is missing and a later slot is present, \<open>join\<close> returns no
  value and signals \<open>CorruptFragmentSequence\<close>.
\<close>

theorem join_tolerates_only_trailing_absence:
  "join slots =
     (if \<exists>i j. i < j \<and> j < length slots \<and> absent (slots ! i) \<and> \<not> absent (slots ! j)
      then Inl CorruptFragmentSequence
      else Inr (concat (map fragment slots)))"
proof (induction slots)
  case Nil
  then show ?case by simp
next
  case (Cons slot rest)
  show ?case
  proof (cases "absent slot")
    case True
    show ?thesis
    proof (cases "list_all absent rest")
      case all: True
      have "\<not> (\<exists>i j. i < j \<and> j < length (slot # rest) \<and> absent ((slot # rest) ! i) \<and>
                \<not> absent ((slot # rest) ! j))"
        using all True by (auto simp: list_all_length nth_Cons split: nat.splits)
      moreover have "concat (map fragment (slot # rest)) = []"
        using concat_absent [of "slot # rest"] all True by simp
      ultimately show ?thesis using True all by simp
    next
      case some: False
      then obtain j where j: "j < length rest" "\<not> absent (rest ! j)"
        by (auto simp: list_all_length)
      have "0 < Suc j \<and> Suc j < length (slot # rest) \<and> absent ((slot # rest) ! 0) \<and>
          \<not> absent ((slot # rest) ! Suc j)"
        using j True by simp
      then have "\<exists>i j. i < j \<and> j < length (slot # rest) \<and> absent ((slot # rest) ! i) \<and>
          \<not> absent ((slot # rest) ! j)"
        by blast
      then show ?thesis using True some by simp
    qed
  next
    case False
    show ?thesis
      unfolding gap_Cons_present [OF False] using False Cons.IH
      by (auto simp: then_try_def)
  qed
qed

text \<open>Two slots: the second empty, then the first missing.\<close>

theorem join_tolerates_only_trailing_absence_witness:
  "join [Some ''eEJlYXJl'', None] = Inr ''eEJlYXJl'' \<and>
   join [None, Some ''ciBhYmM=''] = Inl CorruptFragmentSequence"
proof -
  have no_gap: "\<not> (\<exists>i j. i < j \<and> j < length [Some ''eEJlYXJl'', None] \<and>
      absent ([Some ''eEJlYXJl'', None] ! i) \<and> \<not> absent ([Some ''eEJlYXJl'', None] ! j))"
    by (auto simp: absent_def nth_Cons less_Suc_eq split: nat.splits)
  have "(0::nat) < 1 \<and> 1 < length [None, Some ''ciBhYmM=''] \<and>
      absent ([None, Some ''ciBhYmM=''] ! 0) \<and> \<not> absent ([None, Some ''ciBhYmM=''] ! 1)"
    by (simp add: absent_def)
  then have gap: "\<exists>i j. i < j \<and> j < length [None, Some ''ciBhYmM=''] \<and>
      absent ([None, Some ''ciBhYmM=''] ! i) \<and> \<not> absent ([None, Some ''ciBhYmM=''] ! j)"
    by blast
  have "join [Some ''eEJlYXJl'', None] = Inr (concat (map fragment [Some ''eEJlYXJl'', None]))"
    using join_tolerates_only_trailing_absence [of "[Some ''eEJlYXJl'', None]"] no_gap
    by (simp only: if_False)
  moreover have "join [None, Some ''ciBhYmM=''] = Inl CorruptFragmentSequence"
    using join_tolerates_only_trailing_absence [of "[None, Some ''ciBhYmM='']"] gap
    by (simp only: if_True)
  ultimately show ?thesis by (simp add: fragment_def)
qed

text \<open>Both slots present, and the Joiner on the cookies of a request.\<close>

lemma join_both_present_example:
  "join [Some ''eEJlYXJl'', Some ''ciBhYmM=''] = Inr ''eEJlYXJlciBhYmM=''"
  by (simp add: then_try_def absent_def fragment_def)

lemma spec_unsplitCookiesIntoValue_example:
  "spec_unsplitCookiesIntoValue (slots_request (Some ''eEJlYXJl'') (Some ''ciBhYmM=''))
       (extraCookieName example_this)
     = Inr ''eEJlYXJlciBhYmM=''"
  by (simp add: example_defs then_try_def absent_def fragment_def)

end
